theory Spec2Isabelle
  imports Main "HOL-Library.Finite_Map"
begin

section \<open>Lazily loaded components: \<^verbatim>\<open>src/lazyComponents.tsx\<close>\<close>

text \<open>
  The module declares fifteen lazily loaded component bindings, a higher-order function
  \<^verbatim>\<open>withSuspense\<close> that wraps a component in a \<^verbatim>\<open>Suspense\<close> element and, on request,
  in an error boundary, the class \<^verbatim>\<open>ErrorBoundary\<close>, the helper \<^verbatim>\<open>preloadComponent\<close>
  and the object \<^verbatim>\<open>LazyComponents\<close>. Elements are modelled as the values the JSX
  expressions build; strings are byte strings (UTF-8).
\<close>

subsection \<open>Values, elements and errors\<close>

datatype js_error = TypeError | Error string

text \<open>The state of the error boundary: \<^verbatim>\<open>{ hasError: boolean }\<close>.\<close>

record ErrorBoundaryState =
  hasError :: bool

text \<open>
  An event handler of this module is a closure that calls \<^verbatim>\<open>this.setState\<close> with a state
  object; it is recorded by that object.
\<close>

datatype handler = SetState ErrorBoundaryState

text \<open>
  \<^verbatim>\<open>ReactNode\<close>: the primitive nodes (\<^verbatim>\<open>null\<close>, \<^verbatim>\<open>undefined\<close>, booleans, numbers, strings),
  arrays of nodes, and elements. The elements are the ones this module builds: host
  elements (tag, \<^verbatim>\<open>className\<close> and \<^verbatim>\<open>onClick\<close> when present, children), \<^verbatim>\<open><Suspense fallback=..>\<close>,
  \<^verbatim>\<open><ErrorBoundary>\<close>, \<^verbatim>\<open><DefaultLoadingFallback size=..>\<close>, and an element of a component
  \<open>'c\<close> of the caller with its key, when it has one, and its props, an object from
  property names to values \<open>'v\<close>.
  Numbers are integers plus \<^verbatim>\<open>NaN\<close>: only whether a number is zero matters here.
\<close>

datatype ('c, 'v) ReactNode =
    RNull
  | RUndefined
  | RBool bool
  | RNumber int
  | RNaN
  | RString string
  | RArray "('c, 'v) ReactNode list"
  | Host string "string option" "handler option" "('c, 'v) ReactNode list"
  | SuspenseEl "('c, 'v) ReactNode" "('c, 'v) ReactNode"
  | ErrorBoundaryEl "('c, 'v) ReactNode"
  | DefaultLoadingFallbackEl "string option"
  | ComponentEl 'c "'v option" "(string, 'v) fmap"

text \<open>JavaScript truthiness of a node, and the operator \<^verbatim>\<open>a || b\<close>.\<close>

fun truthy :: "('c, 'v) ReactNode \<Rightarrow> bool" where
  "truthy RNull = False"
| "truthy RUndefined = False"
| "truthy (RBool b) = b"
| "truthy (RNumber n) = (n \<noteq> 0)"
| "truthy RNaN = False"
| "truthy (RString s) = (s \<noteq> [])"
| "truthy _ = True"

definition js_or :: "('c, 'v) ReactNode \<Rightarrow> ('c, 'v) ReactNode \<Rightarrow> ('c, 'v) ReactNode" where
  "js_or a b = (if truthy a then a else b)"

text \<open>The object spread \<^verbatim>\<open>{...props}\<close>: a fresh object that receives every own property.\<close>

definition spread :: "(string, 'v) fmap \<Rightarrow> (string, 'v) fmap" where
  "spread props = fmempty ++\<^sub>f props"

subsection \<open>Strings: \<^verbatim>\<open>split\<close>, indexing, template literals\<close>

text \<open>
  \<^verbatim>\<open>s.split(sep)\<close> for a one-character separator: every occurrence cuts, so the result
  is never empty and two adjacent separators give an empty token.
\<close>

fun split :: "char \<Rightarrow> string \<Rightarrow> string list" where
  "split sep [] = [[]]"
| "split sep (c # cs) =
     (if c = sep then [] # split sep cs
      else (case split sep cs of
              [] \<Rightarrow> [[c]]
            | w # ws \<Rightarrow> (c # w) # ws))"

text \<open>\<^verbatim>\<open>arr[i]\<close> is \<^verbatim>\<open>undefined\<close> (here \<open>None\<close>) out of range; it does not raise.\<close>

definition index :: "'a list \<Rightarrow> nat \<Rightarrow> 'a option" where
  "index xs i = (if i < length xs then Some (xs ! i) else None)"

text \<open>A template literal prints \<^verbatim>\<open>undefined\<close> for an undefined value.\<close>

definition template :: "string option \<Rightarrow> string" where
  "template v = (case v of None \<Rightarrow> ''undefined'' | Some s \<Rightarrow> s)"

subsection \<open>\<^verbatim>\<open>DefaultLoadingFallback\<close>\<close>

definition sizeClasses :: "(string \<times> string) list" where
  "sizeClasses =
     [(''sm'', ''h-5 w-5 min-h-[100px]''),
      (''md'', ''h-8 w-8 min-h-[200px]''),
      (''lg'', ''h-12 w-12 min-h-[300px]'')]"

text \<open>
  The argument is the \<^verbatim>\<open>size\<close> prop, \<open>None\<close> when it is omitted. Types are erased at run
  time, so the prop is any string; \<^verbatim>\<open>sizeClasses[size].split\<close> raises a \<^verbatim>\<open>TypeError\<close>
  when the lookup finds no class string.
\<close>

definition DefaultLoadingFallback :: "string option \<Rightarrow> js_error + ('c, 'v) ReactNode" where
  "DefaultLoadingFallback size_prop =
     (let size = (case size_prop of None \<Rightarrow> ''md'' | Some s \<Rightarrow> s);
          outer = ''flex items-center justify-center '' @ template (map_of sizeClasses size)
      in case map_of sizeClasses size of
           None \<Rightarrow> Inl TypeError
         | Some cls \<Rightarrow>
             Inr (Host ''div'' (Some outer) None
               [Host ''div''
                  (Some (''animate-spin rounded-full '' @ template (index (split CHR '' '' cls) 0)
                    @ '' '' @ template (index (split CHR '' '' cls) 1)
                    @ '' border-b-2 border-white''))
                  None []]))"

subsection \<open>\<^verbatim>\<open>ErrorBoundary\<close>\<close>

record ('c, 'v) ErrorBoundaryProps =
  children :: "('c, 'v) ReactNode"

definition ErrorBoundary_constructor :: "('c, 'v) ErrorBoundaryProps \<Rightarrow> ErrorBoundaryState" where
  "ErrorBoundary_constructor props = \<lparr>hasError = False\<rparr>"

definition getDerivedStateFromError :: ErrorBoundaryState where
  "getDerivedStateFromError = \<lparr>hasError = True\<rparr>"

text \<open>\<^verbatim>\<open>this.setState(patch)\<close> merges the fields of the patch into the state.\<close>

definition setState :: "ErrorBoundaryState \<Rightarrow> ErrorBoundaryState \<Rightarrow> ErrorBoundaryState" where
  "setState patch s = s\<lparr>hasError := hasError patch\<rparr>"

fun run_handler :: "handler \<Rightarrow> ErrorBoundaryState \<Rightarrow> ErrorBoundaryState" where
  "run_handler (SetState patch) s = setState patch s"

text \<open>\<^verbatim>\<open>componentDidCatch\<close> writes one line to the console, modelled as a log.\<close>

definition componentDidCatch ::
  "js_error \<Rightarrow> string \<Rightarrow> (string \<times> js_error \<times> string) list \<Rightarrow> (string \<times> js_error \<times> string) list"
where
  "componentDidCatch error errorInfo console = console @ [(''Lazy component error:'', error, errorInfo)]"

definition warning_sign :: string where
  "warning_sign = [CHR 0xE2, CHR 0x9A, CHR 0xA0, CHR 0xEF, CHR 0xB8, CHR 0x8F]"

text \<open>The element that \<^verbatim>\<open>render\<close> returns in the error state.\<close>

definition error_fallback :: "('c, 'v) ReactNode" where
  "error_fallback =
     Host ''div'' (Some ''flex items-center justify-center min-h-[200px] text-red-400'') None
       [Host ''div'' (Some ''text-center'') None
          [Host ''div'' (Some ''text-2xl mb-2'') None [RString warning_sign],
           Host ''p'' None None [RString ''Something went wrong loading this component''],
           Host ''button''
             (Some ''mt-2 px-3 py-1 bg-red-600 hover:bg-red-700 rounded text-white text-sm'')
             (Some (SetState \<lparr>hasError = False\<rparr>))
             [RString ''Retry'']]]"

definition render :: "ErrorBoundaryState \<Rightarrow> ('c, 'v) ErrorBoundaryProps \<Rightarrow> ('c, 'v) ReactNode" where
  "render state props = (if hasError state then error_fallback else children props)"

subsection \<open>Element creation\<close>

text \<open>
  Modelled from the spec: the UI framework is an external collaborator and not part of
  this repository; the JSX expression \<^verbatim>\<open><Component {...props} />\<close> calls its element
  creation with the spread object. Element creation does not hand the object on as it
  is. It takes \<^verbatim>\<open>key\<close> out of it and records a key that is not \<^verbatim>\<open>undefined\<close> on the
  element; it takes out the other names the framework reserves (\<^verbatim>\<open>ref\<close>, \<^verbatim>\<open>__self\<close>,
  \<^verbatim>\<open>__source\<close> up to version 18, none from version 19); and it fills every prop that is
  then absent or \<^verbatim>\<open>undefined\<close> from the \<^verbatim>\<open>defaultProps\<close> the framework applies to the
  component (none when the component declares none). What depends on the version of the
  framework and on the values of the caller is a parameter: the reserved names other
  than \<^verbatim>\<open>key\<close>, the test for \<^verbatim>\<open>undefined\<close>, and the defaults of each component. The key
  is kept as the value given; its conversion to a string is left out.
\<close>

record ('c, 'v) React =
  reserved :: "string list"
  is_undefined :: "'v \<Rightarrow> bool"
  defaultProps :: "'c \<Rightarrow> (string, 'v) fmap"

definition element_key :: "('c, 'v) React \<Rightarrow> (string, 'v) fmap \<Rightarrow> 'v option" where
  "element_key R config =
     (case fmlookup config ''key'' of
        None \<Rightarrow> None
      | Some k \<Rightarrow> if is_undefined R k then None else Some k)"

definition own_props :: "('c, 'v) React \<Rightarrow> (string, 'v) fmap \<Rightarrow> (string, 'v) fmap" where
  "own_props R config =
     fmfilter (\<lambda>name. name \<noteq> ''key'' \<and> name \<notin> set (reserved R)) config"

definition element_props :: "('c, 'v) React \<Rightarrow> 'c \<Rightarrow> (string, 'v) fmap \<Rightarrow> (string, 'v) fmap" where
  "element_props R component config =
     (let props = own_props R config;
          missing = fmfilter
            (\<lambda>name. case fmlookup props name of None \<Rightarrow> True | Some v \<Rightarrow> is_undefined R v)
            (defaultProps R component)
      in props ++\<^sub>f missing)"

definition createElement :: "('c, 'v) React \<Rightarrow> 'c \<Rightarrow> (string, 'v) fmap \<Rightarrow> ('c, 'v) ReactNode" where
  "createElement R component config =
     ComponentEl component (element_key R config) (element_props R component config)"

subsection \<open>\<^verbatim>\<open>withSuspense\<close>\<close>

text \<open>The options object; \<open>None\<close> is a property that is absent.\<close>

record ('c, 'v) options =
  fallback :: "('c, 'v) ReactNode option"
  errorBoundary :: "bool option"
  loadingSize :: "string option"

definition no_options :: "('c, 'v) options" where
  "no_options = \<lparr>fallback = None, errorBoundary = None, loadingSize = None\<rparr>"

text \<open>
  The destructuring of the options, with \<open>None\<close> for an omitted second argument (the
  parameter's default is the empty object): an absent \<^verbatim>\<open>fallback\<close> is \<^verbatim>\<open>undefined\<close>, an
  absent \<^verbatim>\<open>errorBoundary\<close> is \<^verbatim>\<open>false\<close>, an absent \<^verbatim>\<open>loadingSize\<close> is \<^verbatim>\<open>'md'\<close>.
\<close>

definition options_of :: "('c, 'v) options option \<Rightarrow> ('c, 'v) options" where
  "options_of options_arg = (case options_arg of None \<Rightarrow> no_options | Some given \<Rightarrow> given)"

definition options_fallback :: "('c, 'v) options option \<Rightarrow> ('c, 'v) ReactNode" where
  "options_fallback options_arg =
     (case fallback (options_of options_arg) of None \<Rightarrow> RUndefined | Some node \<Rightarrow> node)"

definition options_errorBoundary :: "('c, 'v) options option \<Rightarrow> bool" where
  "options_errorBoundary options_arg =
     (case errorBoundary (options_of options_arg) of None \<Rightarrow> False | Some b \<Rightarrow> b)"

definition options_loadingSize :: "('c, 'v) options option \<Rightarrow> string" where
  "options_loadingSize options_arg =
     (case loadingSize (options_of options_arg) of None \<Rightarrow> ''md'' | Some s \<Rightarrow> s)"

text \<open>
  The local \<^verbatim>\<open>loadingFallback\<close> of the wrapper, and the wrapper \<^verbatim>\<open>WrappedComponent\<close>
  itself, a closure over the component and the three destructured values. The element
  of the wrapped component is made by the framework \<open>R\<close> the module is linked with.
\<close>

definition loadingFallback :: "('c, 'v) ReactNode \<Rightarrow> string \<Rightarrow> ('c, 'v) ReactNode" where
  "loadingFallback fallback_v loadingSize_v =
     js_or fallback_v (DefaultLoadingFallbackEl (Some loadingSize_v))"

definition WrappedComponent ::
  "('c, 'v) React \<Rightarrow> 'c \<Rightarrow> ('c, 'v) ReactNode \<Rightarrow> bool \<Rightarrow> string \<Rightarrow> (string, 'v) fmap
     \<Rightarrow> ('c, 'v) ReactNode"
where
  "WrappedComponent R Component fallback_v errorBoundary_v loadingSize_v props =
     (let SuspenseWrapper =
            SuspenseEl (loadingFallback fallback_v loadingSize_v)
              (createElement R Component (spread props))
      in if errorBoundary_v then ErrorBoundaryEl SuspenseWrapper else SuspenseWrapper)"

definition withSuspense ::
  "('c, 'v) React \<Rightarrow> 'c \<Rightarrow> ('c, 'v) options option \<Rightarrow> (string, 'v) fmap \<Rightarrow> ('c, 'v) ReactNode"
where
  "withSuspense R Component options_arg =
     WrappedComponent R Component (options_fallback options_arg)
       (options_errorBoundary options_arg) (options_loadingSize options_arg)"

subsection \<open>The framework: suspense and error boundaries\<close>

text \<open>
  Modelled from the spec: the UI framework (its \<^verbatim>\<open>Suspense\<close>, error-boundary and \<^verbatim>\<open>lazy\<close>
  primitives) is an external collaborator and not part of this repository. The glossary
  gives its contract: a suspense fallback is the placeholder shown while a deferred
  resource is loading; an error boundary intercepts rendering exceptions from its
  children and renders a fallback instead of crashing the tree.

  Rendering a subtree has one of three outcomes: a node is shown in its place, the
  subtree is suspended (a module it needs is still loading), or an exception leaves it.
  The behaviour \<open>beh\<close> of the caller's components is a parameter: a lazily loaded
  component is \<open>Suspended\<close> while its import is pending, throws when the import was
  rejected or its render throws, and shows its output otherwise.
\<close>

datatype ('c, 'v) outcome = Shown "('c, 'v) ReactNode" | Suspended | Threw js_error

text \<open>
  The outcome of rendering a list of children, in order: the first child that is
  suspended or throws decides, and the children after it are not rendered.
\<close>

datatype ('c, 'v) outcomes = AllShown "('c, 'v) ReactNode list" | OneSuspended | OneThrew js_error

text \<open>
  A \<^verbatim>\<open>Suspense\<close> element renders its fallback while its child is suspended, so that a
  fallback that throws or is suspended itself has that outcome, and lets an exception of
  its child pass. An \<^verbatim>\<open>ErrorBoundary\<close> element is mounted with the state of its
  constructor and rendered; when an exception leaves what it rendered, the framework
  merges \<^verbatim>\<open>getDerivedStateFromError()\<close> into its state and shows what \<^verbatim>\<open>render\<close> returns
  then. A \<^verbatim>\<open>DefaultLoadingFallback\<close> element is rendered by calling the component. Host
  elements and arrays render their children; primitive nodes are shown as they are.
\<close>

function reconcile ::
    "('c \<Rightarrow> (string, 'v) fmap \<Rightarrow> ('c, 'v) outcome) \<Rightarrow> ('c, 'v) ReactNode \<Rightarrow> ('c, 'v) outcome"
  and reconcile_children ::
    "('c \<Rightarrow> (string, 'v) fmap \<Rightarrow> ('c, 'v) outcome) \<Rightarrow> ('c, 'v) ReactNode list \<Rightarrow> ('c, 'v) outcomes"
where
  "reconcile beh (ComponentEl c k props) = beh c props"
| "reconcile beh (DefaultLoadingFallbackEl size_prop) =
     (case DefaultLoadingFallback size_prop of Inl e \<Rightarrow> Threw e | Inr node \<Rightarrow> Shown node)"
| "reconcile beh (SuspenseEl fb ch) =
     (case reconcile beh ch of Suspended \<Rightarrow> reconcile beh fb | other \<Rightarrow> other)"
| "reconcile beh (ErrorBoundaryEl ch) =
     (let props = \<lparr>children = ch\<rparr>; state = ErrorBoundary_constructor props
      in case reconcile beh (render state props) of
           Threw e \<Rightarrow> Shown (render (setState getDerivedStateFromError state) props)
         | other \<Rightarrow> other)"
| "reconcile beh RNull = Shown RNull"
| "reconcile beh RUndefined = Shown RUndefined"
| "reconcile beh (RBool b) = Shown (RBool b)"
| "reconcile beh (RNumber n) = Shown (RNumber n)"
| "reconcile beh RNaN = Shown RNaN"
| "reconcile beh (RString s) = Shown (RString s)"
| "reconcile beh (RArray xs) =
     (case reconcile_children beh xs of
        AllShown ys \<Rightarrow> Shown (RArray ys)
      | OneSuspended \<Rightarrow> Suspended
      | OneThrew e \<Rightarrow> Threw e)"
| "reconcile beh (Host t c h xs) =
     (case reconcile_children beh xs of
        AllShown ys \<Rightarrow> Shown (Host t c h ys)
      | OneSuspended \<Rightarrow> Suspended
      | OneThrew e \<Rightarrow> Threw e)"
| "reconcile_children beh [] = AllShown []"
| "reconcile_children beh (x # xs) =
     (case reconcile beh x of
        Shown y \<Rightarrow>
          (case reconcile_children beh xs of
             AllShown ys \<Rightarrow> AllShown (y # ys)
           | other \<Rightarrow> other)
      | Suspended \<Rightarrow> OneSuspended
      | Threw e \<Rightarrow> OneThrew e)"
  by pat_completeness auto
termination
  by (relation "measure (\<lambda>arg. case arg of
          Inl (beh, node) \<Rightarrow> size node
        | Inr (beh, xs) \<Rightarrow> size_list size xs)")
     (auto simp: render_def ErrorBoundary_constructor_def)

subsection \<open>Reading an element tree\<close>

text \<open>
  The element tree of a node: the node and its descendants through \<^verbatim>\<open>children\<close>. The
  values of other attributes (a \<^verbatim>\<open>fallback\<close>, the props handed to a component of the
  caller) belong to whoever supplied them and are not descended into.
\<close>

fun nodes :: "('c, 'v) ReactNode \<Rightarrow> ('c, 'v) ReactNode list" where
  "nodes (RArray xs) = RArray xs # concat (map nodes xs)"
| "nodes (Host t c h xs) = Host t c h xs # concat (map nodes xs)"
| "nodes (SuspenseEl fb ch) = SuspenseEl fb ch # nodes ch"
| "nodes (ErrorBoundaryEl ch) = ErrorBoundaryEl ch # nodes ch"
| "nodes n = [n]"

fun is_ErrorBoundary :: "('c, 'v) ReactNode \<Rightarrow> bool" where
  "is_ErrorBoundary (ErrorBoundaryEl ch) = True"
| "is_ErrorBoundary _ = False"

text \<open>
  The \<^verbatim>\<open>Suspense\<close> element at the root of a tree, or under error boundaries at the root:
  its \<^verbatim>\<open>fallback\<close> attribute and its child.
\<close>

fun enclosing_suspense :: "('c, 'v) ReactNode \<Rightarrow> (('c, 'v) ReactNode \<times> ('c, 'v) ReactNode) option" where
  "enclosing_suspense (SuspenseEl fb ch) = Some (fb, ch)"
| "enclosing_suspense (ErrorBoundaryEl ch) = enclosing_suspense ch"
| "enclosing_suspense _ = None"

text \<open>The \<^verbatim>\<open>onClick\<close> handlers of the elements of a tree, in document order.\<close>

fun onClick_of :: "('c, 'v) ReactNode \<Rightarrow> handler option" where
  "onClick_of (Host t c h xs) = h"
| "onClick_of _ = None"

definition onClicks :: "('c, 'v) ReactNode \<Rightarrow> handler list" where
  "onClicks n = List.map_filter onClick_of (nodes n)"

text \<open>
  The handler of the button with a given label: the \<^verbatim>\<open>onClick\<close> of a \<^verbatim>\<open>button\<close> element
  whose only child is that text.
\<close>

fun button_onClick :: "string \<Rightarrow> ('c, 'v) ReactNode \<Rightarrow> handler option" where
  "button_onClick label (Host t c h xs) =
     (if t = ''button'' \<and> xs = [RString label] then h else None)"
| "button_onClick label _ = None"

definition button_handlers :: "string \<Rightarrow> ('c, 'v) ReactNode \<Rightarrow> handler list" where
  "button_handlers label n = List.map_filter (button_onClick label) (nodes n)"

text \<open>
  The props that reach the component of the caller inside the wrappers of this module.
\<close>

fun forwarded_props :: "('c, 'v) ReactNode \<Rightarrow> (string, 'v) fmap option" where
  "forwarded_props (ComponentEl c k p) = Some p"
| "forwarded_props (SuspenseEl fb ch) = forwarded_props ch"
| "forwarded_props (ErrorBoundaryEl ch) = forwarded_props ch"
| "forwarded_props _ = None"

subsection \<open>The lazy bindings\<close>

text \<open>
  An import thunk \<^verbatim>\<open>() => import(path)\<close> is recorded by its module path; invoking it
  requests that module.

  Modelled from the spec: the framework's \<^verbatim>\<open>lazy\<close> (not part of this repository) defers
  the import. It stores the thunk in a component that is not yet initialised, without
  invoking it; the framework invokes the thunk when the component is first rendered
  (\<open>lazyInitializer\<close>) and never again. The requests made so far are a list of module
  paths.
\<close>

datatype import_thunk = Import string

datatype lazy_status = Uninitialized | Pending | Resolved | Rejected

record LazyExoticComponent =
  payload_status :: lazy_status
  payload_thunk :: import_thunk

definition lazy :: "import_thunk \<Rightarrow> LazyExoticComponent" where
  "lazy thunk = \<lparr>payload_status = Uninitialized, payload_thunk = thunk\<rparr>"

definition lazyInitializer :: "LazyExoticComponent \<Rightarrow> string list \<Rightarrow> LazyExoticComponent \<times> string list" where
  "lazyInitializer l requests =
     (if payload_status l = Uninitialized then
        (case payload_thunk l of
           Import path \<Rightarrow> (l\<lparr>payload_status := Pending\<rparr>, requests @ [path]))
      else (l, requests))"

definition LazyProfileDashboard :: LazyExoticComponent where
  "LazyProfileDashboard = lazy (Import ''./components/dashboard/ProfileDashboard'')"

definition LazyPersonalDetails :: LazyExoticComponent where
  "LazyPersonalDetails = lazy (Import ''./components/dashboard/PersonalDetails'')"

definition LazyTransaction :: LazyExoticComponent where
  "LazyTransaction = lazy (Import ''./components/dashboard/Transaction'')"

definition LazyFilters :: LazyExoticComponent where
  "LazyFilters = lazy (Import ''./components/marketplace/Filters'')"

definition LazyCoinCard :: LazyExoticComponent where
  "LazyCoinCard = lazy (Import ''./components/marketplace/CoinCard'')"

definition LazyAssetTable :: LazyExoticComponent where
  "LazyAssetTable = lazy (Import ''./components/marketplace/AssetTable'')"

definition LazySummaryHeader :: LazyExoticComponent where
  "LazySummaryHeader = lazy (Import ''./components/marketplace/SummaryHeader'')"

definition LazyTradeInterface :: LazyExoticComponent where
  "LazyTradeInterface = lazy (Import ''./components/marketplace/TradeInterface'')"

definition LazySmallLoanCard :: LazyExoticComponent where
  "LazySmallLoanCard = lazy (Import ''./components/card/SmallLoanCard'')"

definition LazyBigLoanCard :: LazyExoticComponent where
  "LazyBigLoanCard = lazy (Import ''./components/card/BigLoanCard'')"

definition LazyLoanRequestForm :: LazyExoticComponent where
  "LazyLoanRequestForm = lazy (Import ''./components/card/LoanRequestForm'')"

definition LazyLoanEligibilityMeter :: LazyExoticComponent where
  "LazyLoanEligibilityMeter = lazy (Import ''./components/card/LoanEligibilityMeter'')"

definition LazyWalletConnectionModal :: LazyExoticComponent where
  "LazyWalletConnectionModal = lazy (Import ''./components/wallet/WalletConnectionModal'')"

definition LazyFaucetModule :: LazyExoticComponent where
  "LazyFaucetModule = lazy (Import ''./components/landing/FaucetModule'')"

definition LazyBuiltOnAptos :: LazyExoticComponent where
  "LazyBuiltOnAptos = lazy (Import ''./components/landing/BuiltOnAptos'')"

text \<open>The object \<^verbatim>\<open>LazyComponents\<close>, its properties in the order they are written.\<close>

definition LazyComponents :: "(string \<times> LazyExoticComponent) list" where
  "LazyComponents =
     [(''ProfileDashboard'', LazyProfileDashboard),
      (''PersonalDetails'', LazyPersonalDetails),
      (''Transaction'', LazyTransaction),
      (''Filters'', LazyFilters),
      (''CoinCard'', LazyCoinCard),
      (''AssetTable'', LazyAssetTable),
      (''SummaryHeader'', LazySummaryHeader),
      (''TradeInterface'', LazyTradeInterface),
      (''SmallLoanCard'', LazySmallLoanCard),
      (''BigLoanCard'', LazyBigLoanCard),
      (''LoanRequestForm'', LazyLoanRequestForm),
      (''LoanEligibilityMeter'', LazyLoanEligibilityMeter),
      (''WalletConnectionModal'', LazyWalletConnectionModal),
      (''FaucetModule'', LazyFaucetModule),
      (''BuiltOnAptos'', LazyBuiltOnAptos)]"

subsection \<open>\<^verbatim>\<open>preloadComponent\<close>\<close>

text \<open>
  Calling the import function either throws or returns a promise, which is recorded by
  how it settles (\<open>PPending\<close>: it never does). \<^verbatim>\<open>promise.catch(handler)\<close> runs the handler
  on the reason of a rejection. The console is the list of values passed to
  \<^verbatim>\<open>console.error\<close>. \<^verbatim>\<open>preloadComponent\<close> returns before the promise settles; its model
  returns the completion of the call together with the console as the handler leaves it.
\<close>

datatype 'm promise = PPending | PFulfilled 'm | PRejected js_error

datatype 'm completion = Throw js_error | Return "'m promise"

definition console_error :: "js_error \<Rightarrow> js_error list \<Rightarrow> js_error list" where
  "console_error e console = console @ [e]"

definition promise_catch ::
  "'m promise \<Rightarrow> (js_error \<Rightarrow> js_error list \<Rightarrow> js_error list) \<Rightarrow> js_error list \<Rightarrow> js_error list"
where
  "promise_catch p on_rejected console =
     (case p of PRejected e \<Rightarrow> on_rejected e console | _ \<Rightarrow> console)"

definition preloadComponent ::
  "(unit \<Rightarrow> 'm completion) \<Rightarrow> js_error list \<Rightarrow> (js_error + unit) \<times> js_error list"
where
  "preloadComponent importFn console =
     (case importFn () of
        Throw e \<Rightarrow> (Inl e, console)
      | Return p \<Rightarrow> (Inr (), promise_catch p console_error console))"

subsection \<open>The exports of the module\<close>

text \<open>
  Every \<^verbatim>\<open>export\<close> of the file, in the order of the source: the fifteen lazy bindings,
  the two functions and the object.
\<close>

datatype export =
    LazyExport LazyExoticComponent
  | FunctionExport
  | ObjectExport "(string \<times> LazyExoticComponent) list"

definition module_exports :: "(string \<times> export) list" where
  "module_exports =
     [(''LazyProfileDashboard'', LazyExport LazyProfileDashboard),
      (''LazyPersonalDetails'', LazyExport LazyPersonalDetails),
      (''LazyTransaction'', LazyExport LazyTransaction),
      (''LazyFilters'', LazyExport LazyFilters),
      (''LazyCoinCard'', LazyExport LazyCoinCard),
      (''LazyAssetTable'', LazyExport LazyAssetTable),
      (''LazySummaryHeader'', LazyExport LazySummaryHeader),
      (''LazyTradeInterface'', LazyExport LazyTradeInterface),
      (''LazySmallLoanCard'', LazyExport LazySmallLoanCard),
      (''LazyBigLoanCard'', LazyExport LazyBigLoanCard),
      (''LazyLoanRequestForm'', LazyExport LazyLoanRequestForm),
      (''LazyLoanEligibilityMeter'', LazyExport LazyLoanEligibilityMeter),
      (''LazyWalletConnectionModal'', LazyExport LazyWalletConnectionModal),
      (''LazyFaucetModule'', LazyExport LazyFaucetModule),
      (''LazyBuiltOnAptos'', LazyExport LazyBuiltOnAptos),
      (''withSuspense'', FunctionExport),
      (''preloadComponent'', FunctionExport),
      (''LazyComponents'', ObjectExport LazyComponents)]"

text \<open>The import thunks an export wraps.\<close>

fun import_thunks :: "export \<Rightarrow> import_thunk list" where
  "import_thunks (LazyExport l) = [payload_thunk l]"
| "import_thunks FunctionExport = []"
| "import_thunks (ObjectExport entries) = map (\<lambda>(name, l). payload_thunk l) entries"

subsection \<open>Needing a lazy component\<close>

text \<open>
  Modelled from the spec: code splitting defers fetching the code of a component until
  the component is needed. The framework (not part of this repository) needs a lazy
  component when it renders an element of it; it then initialises the component, which
  invokes the import thunk if that has not happened before. The state of a running
  application is the lazy bindings of this module, by the name of their export, and the
  module paths that their thunks have requested so far.
\<close>

record app =
  bindings :: "string \<rightharpoonup> LazyExoticComponent"
  requested :: "string list"

text \<open>The lazy bindings among the exports.\<close>

definition lazy_exports :: "(string \<times> LazyExoticComponent) list" where
  "lazy_exports =
     List.map_filter
       (\<lambda>(name, e). case e of LazyExport l \<Rightarrow> Some (name, l) | _ \<Rightarrow> None)
       module_exports"

text \<open>
  The state once the module has been evaluated: every binding is what \<^verbatim>\<open>lazy\<close> returned,
  and evaluating the module has requested nothing.
\<close>

definition module_loaded :: app where
  "module_loaded = \<lparr>bindings = map_of lazy_exports, requested = []\<rparr>"

text \<open>The framework renders an element of the export \<open>name\<close>.\<close>

definition need :: "string \<Rightarrow> app \<Rightarrow> app" where
  "need name st =
     (case bindings st name of
        None \<Rightarrow> st
      | Some l \<Rightarrow>
          (case lazyInitializer l (requested st) of
             (l', requests') \<Rightarrow> \<lparr>bindings = (bindings st)(name \<mapsto> l'), requested = requests'\<rparr>))"

text \<open>The components that are needed, one after the other.\<close>

definition run :: "string list \<Rightarrow> app \<Rightarrow> app" where
  "run names st = foldl (\<lambda>st name. need name st) st names"

subsection \<open>Concrete inputs\<close>

text \<open>
  Two frameworks over integer prop values, none of them \<^verbatim>\<open>undefined\<close>: one that reserves
  \<^verbatim>\<open>ref\<close>, \<^verbatim>\<open>__self\<close> and \<^verbatim>\<open>__source\<close> besides \<^verbatim>\<open>key\<close> and applies no defaults, and one
  that also applies the default \<^verbatim>\<open>{ size: 3 }\<close> to every component. Behaviours of the
  components of the caller: one whose module is still loading, one whose import was
  rejected, and one where the component \<^verbatim>\<open>Spinner\<close> throws while every other component
  is still loading. Import functions: one that throws before it returns a promise, and
  one whose promise is rejected.
\<close>

definition react18 :: "(string, int) React" where
  "react18 =
     \<lparr>reserved = [''ref'', ''__self'', ''__source''],
      is_undefined = (\<lambda>v. False),
      defaultProps = (\<lambda>component. fmempty)\<rparr>"

definition react18_size_default :: "(string, int) React" where
  "react18_size_default = react18\<lparr>defaultProps := (\<lambda>component. fmupd ''size'' 3 fmempty)\<rparr>"

definition still_loading :: "string \<Rightarrow> (string, int) fmap \<Rightarrow> (string, int) outcome" where
  "still_loading c props = Suspended"

definition import_rejected :: "string \<Rightarrow> (string, int) fmap \<Rightarrow> (string, int) outcome" where
  "import_rejected c props = Threw (Error ''Loading chunk failed'')"

definition spinner_throws :: "string \<Rightarrow> (string, int) fmap \<Rightarrow> (string, int) outcome" where
  "spinner_throws c props =
     (if c = ''Spinner'' then Threw (Error ''spinner failed'') else Suspended)"

definition throwing_import :: "unit \<Rightarrow> string completion" where
  "throwing_import u = Throw (Error ''offline'')"

definition rejecting_import :: "unit \<Rightarrow> string completion" where
  "rejecting_import u = Return (PRejected (Error ''Loading chunk failed''))"

section \<open>Properties\<close>

subsection \<open>Shared facts\<close>

lemma withSuspense_shape:
  "withSuspense R C oarg props =
     (if options_errorBoundary oarg
      then ErrorBoundaryEl
             (SuspenseEl (loadingFallback (options_fallback oarg) (options_loadingSize oarg))
                (createElement R C props))
      else SuspenseEl (loadingFallback (options_fallback oarg) (options_loadingSize oarg))
             (createElement R C props))"
  by (simp add: withSuspense_def WrappedComponent_def spread_def)

lemma own_props_lookup:
  "fmlookup (own_props R config) name =
     (if name = ''key'' \<or> name \<in> set (reserved R) then None else fmlookup config name)"
  by (simp add: own_props_def)

lemma element_props_lookup:
  "fmlookup (element_props R C config) name =
     (case fmlookup (own_props R config) name of
        None \<Rightarrow> fmlookup (defaultProps R C) name
      | Some v \<Rightarrow>
          if is_undefined R v
          then (case fmlookup (defaultProps R C) name of None \<Rightarrow> Some v | Some d \<Rightarrow> Some d)
          else Some v)"
  by (auto simp: element_props_def Let_def split: option.splits)

lemma reconcile_wrapper:
  "reconcile beh (withSuspense R C oarg props) =
     (case reconcile beh (createElement R C props) of
        Shown n \<Rightarrow> Shown n
      | Suspended \<Rightarrow>
          (case reconcile beh (loadingFallback (options_fallback oarg) (options_loadingSize oarg)) of
             Threw e \<Rightarrow> if options_errorBoundary oarg then Shown error_fallback else Threw e
           | other \<Rightarrow> other)
      | Threw e \<Rightarrow> if options_errorBoundary oarg then Shown error_fallback else Threw e)"
  by (simp add: withSuspense_shape render_def ErrorBoundary_constructor_def setState_def
      getDerivedStateFromError_def split: outcome.splits)

lemma reconcile_createElement: "reconcile beh (createElement R C props) = beh C (element_props R C props)"
  by (simp add: createElement_def)

lemma options_None:
  "options_fallback None = RUndefined"
  "options_errorBoundary None = False"
  "options_loadingSize None = ''md''"
  by (simp_all add: options_fallback_def options_errorBoundary_def options_loadingSize_def
      options_of_def no_options_def)

lemma options_Some:
  "options_fallback (Some opts) = (case fallback opts of None \<Rightarrow> RUndefined | Some n \<Rightarrow> n)"
  "options_errorBoundary (Some opts) = (case errorBoundary opts of None \<Rightarrow> False | Some b \<Rightarrow> b)"
  "options_loadingSize (Some opts) = (case loadingSize opts of None \<Rightarrow> ''md'' | Some s \<Rightarrow> s)"
  by (simp_all add: options_fallback_def options_errorBoundary_def options_loadingSize_def
      options_of_def)

text \<open>
  The error fallback and what \<^verbatim>\<open>DefaultLoadingFallback\<close> returns are host elements and
  text only: rendering them shows them as they are.
\<close>

lemma reconcile_error_fallback: "reconcile beh error_fallback = Shown error_fallback"
  by (simp add: error_fallback_def)

lemma reconcile_DefaultLoadingFallback_result:
  assumes "DefaultLoadingFallback size_prop = Inr node"
  shows "reconcile beh node = Shown node"
  using assms by (auto simp: DefaultLoadingFallback_def Let_def split: option.splits)

lemma button_handlers_error_fallback:
  "button_handlers ''Retry'' (error_fallback :: ('c, 'v) ReactNode) = [SetState \<lparr>hasError = False\<rparr>]"
  by (simp add: button_handlers_def error_fallback_def)

lemma onClicks_error_fallback:
  "onClicks (error_fallback :: ('c, 'v) ReactNode) = [SetState \<lparr>hasError = False\<rparr>]"
  by (simp add: onClicks_def error_fallback_def)

text \<open>Element creation at the concrete inputs.\<close>

lemma sample_props:
  "element_props react18 C (fmupd ''id'' 7 fmempty) = fmupd ''id'' 7 fmempty"
  "element_props react18 C (fmupd ''key'' 5 (fmupd ''id'' 7 fmempty)) = fmupd ''id'' 7 fmempty"
  "element_props react18 C fmempty = fmempty"
  "element_props react18_size_default C (fmupd ''id'' 7 fmempty)
     = fmupd ''id'' 7 (fmupd ''size'' 3 fmempty)"
  "element_key react18 (fmupd ''id'' 7 fmempty) = None"
  "element_key react18 fmempty = None"
  "element_key react18 (fmupd ''key'' 5 (fmupd ''id'' 7 fmempty)) = Some 5"
  by (auto intro!: fmap_ext simp: element_props_lookup own_props_lookup element_key_def
      react18_def react18_size_default_def)

subsection \<open>\<^verbatim>\<open>DefaultLoadingFallback\<close>\<close>

text \<open>What the component returns for each of the three sizes, and for a size outside them.\<close>

lemma DefaultLoadingFallback_sm:
  "DefaultLoadingFallback (Some ''sm'') =
     Inr (Host ''div'' (Some ''flex items-center justify-center h-5 w-5 min-h-[100px]'') None
            [Host ''div'' (Some ''animate-spin rounded-full h-5 w-5 border-b-2 border-white'')
               None []])"
  by (simp add: DefaultLoadingFallback_def sizeClasses_def template_def index_def)

lemma DefaultLoadingFallback_md:
  "DefaultLoadingFallback (Some ''md'') =
     Inr (Host ''div'' (Some ''flex items-center justify-center h-8 w-8 min-h-[200px]'') None
            [Host ''div'' (Some ''animate-spin rounded-full h-8 w-8 border-b-2 border-white'')
               None []])"
  by (simp add: DefaultLoadingFallback_def sizeClasses_def template_def index_def)

lemma DefaultLoadingFallback_lg:
  "DefaultLoadingFallback (Some ''lg'') =
     Inr (Host ''div'' (Some ''flex items-center justify-center h-12 w-12 min-h-[300px]'') None
            [Host ''div'' (Some ''animate-spin rounded-full h-12 w-12 border-b-2 border-white'')
               None []])"
  by (simp add: DefaultLoadingFallback_def sizeClasses_def template_def index_def)

lemma DefaultLoadingFallback_omitted:
  "DefaultLoadingFallback None = DefaultLoadingFallback (Some ''md'')"
  by (simp add: DefaultLoadingFallback_def)

lemma DefaultLoadingFallback_unknown_size:
  "DefaultLoadingFallback (Some ''xl'') = Inl TypeError"
  by (simp add: DefaultLoadingFallback_def sizeClasses_def)

text \<open>
  Claim C8. For every size among \<^verbatim>\<open>'sm'\<close>, \<^verbatim>\<open>'md'\<close>, \<^verbatim>\<open>'lg'\<close>, and for an omitted size (which
  defaults to \<^verbatim>\<open>'md'\<close>), the lookup \<^verbatim>\<open>sizeClasses[size]\<close> is defined, splitting the class
  string at spaces gives at least two tokens, so indices 0 and 1 are defined, and
  \<^verbatim>\<open>DefaultLoadingFallback\<close> returns an element and raises no error.
\<close>

theorem DefaultLoadingFallback_total:
  assumes "size_prop = None \<or> size_prop \<in> {Some ''sm'', Some ''md'', Some ''lg''}"
  shows "\<exists>cls tokens.
           map_of sizeClasses (case size_prop of None \<Rightarrow> ''md'' | Some s \<Rightarrow> s) = Some cls
           \<and> split CHR '' '' cls = tokens \<and> 2 \<le> length tokens
           \<and> index tokens 0 \<noteq> None \<and> index tokens 1 \<noteq> None
           \<and> (\<exists>el :: ('c, 'v) ReactNode. DefaultLoadingFallback size_prop = Inr el)"
  using assms
  by (auto simp: DefaultLoadingFallback_def sizeClasses_def index_def)

theorem DefaultLoadingFallback_total_witness:
  "(Some ''lg'' = (None :: string option) \<or> Some ''lg'' \<in> {Some ''sm'', Some ''md'', Some ''lg''})
   \<and> (\<exists>cls tokens.
         map_of sizeClasses ''lg'' = Some cls
         \<and> split CHR '' '' cls = tokens \<and> 2 \<le> length tokens
         \<and> index tokens 0 \<noteq> None \<and> index tokens 1 \<noteq> None
         \<and> (\<exists>el :: (string, int) ReactNode. DefaultLoadingFallback (Some ''lg'') = Inr el))"
  using DefaultLoadingFallback_total [of "Some ''lg''"]
  by simp

subsection \<open>\<^verbatim>\<open>withSuspense\<close>\<close>

text \<open>
  Claim C1, as amended. For every component, every options argument and every props
  value, the wrapper renders the component inside a \<^verbatim>\<open>Suspense\<close> element, with those
  props as element creation hands them on: a prop that is neither \<^verbatim>\<open>key\<close> nor another
  reserved name and has no default is what the props of the wrapper have there, and
  \<^verbatim>\<open>key\<close> and the other reserved names do not reach the component. The fallback of the
  \<^verbatim>\<open>Suspense\<close> element is \<^verbatim>\<open>options.fallback\<close> when it is provided and truthy; otherwise
  (no options, no fallback, or a fallback that is \<^verbatim>\<open>null\<close>, \<^verbatim>\<open>undefined\<close>, \<^verbatim>\<open>false\<close>,
  \<^verbatim>\<open>0\<close>, \<^verbatim>\<open>NaN\<close> or the empty string) it is a \<^verbatim>\<open>DefaultLoadingFallback\<close> element whose
  size is \<^verbatim>\<open>options.loadingSize\<close>, or \<^verbatim>\<open>'md'\<close> when that is absent.
\<close>

theorem withSuspense_suspense_fallback:
  "enclosing_suspense (withSuspense R C oarg props) =
     Some (case oarg of
             None \<Rightarrow> DefaultLoadingFallbackEl (Some ''md'')
           | Some opts \<Rightarrow>
               (case fallback opts of
                  None \<Rightarrow>
                    DefaultLoadingFallbackEl
                      (Some (case loadingSize opts of None \<Rightarrow> ''md'' | Some s \<Rightarrow> s))
                | Some node \<Rightarrow>
                    if truthy node then node
                    else DefaultLoadingFallbackEl
                           (Some (case loadingSize opts of None \<Rightarrow> ''md'' | Some s \<Rightarrow> s))),
           ComponentEl C (element_key R props) (element_props R C props))
   \<and> (name \<noteq> ''key'' \<and> name \<notin> set (reserved R) \<and> fmlookup (defaultProps R C) name = None
        \<longrightarrow> fmlookup (element_props R C props) name = fmlookup props name)
   \<and> ((name = ''key'' \<or> name \<in> set (reserved R)) \<and> fmlookup (defaultProps R C) name = None
        \<longrightarrow> fmlookup (element_props R C props) name = None)"
  by (simp add: withSuspense_shape createElement_def loadingFallback_def js_or_def options_None
      options_Some element_props_lookup own_props_lookup split: option.splits)

theorem withSuspense_suspense_fallback_witness:
  "''id'' \<noteq> ''key'' \<and> ''id'' \<notin> set (reserved react18)
   \<and> fmlookup (defaultProps react18 ''C'') ''id'' = None
   \<and> fmlookup (element_props react18 ''C'' (fmupd ''id'' 7 fmempty)) ''id'' = Some 7
   \<and> enclosing_suspense
        (withSuspense react18 ''C''
           (Some \<lparr>fallback = Some (RString ''Loading...''), errorBoundary = None,
                  loadingSize = None\<rparr>)
           (fmupd ''id'' 7 fmempty))
       = Some (RString ''Loading...'', ComponentEl ''C'' None (fmupd ''id'' 7 fmempty))"
  using withSuspense_suspense_fallback [where R = react18 and C = "''C''" and name = "''id''"
      and props = "fmupd ''id'' 7 fmempty"
      and oarg = "Some \<lparr>fallback = Some (RString ''Loading...''), errorBoundary = None,
                         loadingSize = None\<rparr>"]
  by (simp add: sample_props) (simp add: react18_def)

text \<open>
  The claim as written fails in two places. A fallback that is provided and falsy is
  replaced: with \<^verbatim>\<open>{ fallback: 0 }\<close> or \<^verbatim>\<open>{ fallback: null }\<close> the \<^verbatim>\<open>Suspense\<close> element
  carries the default spinner. And the component is not rendered with exactly the props
  of the wrapper: from \<^verbatim>\<open>{ key: 5, id: 7 }\<close> the component receives \<^verbatim>\<open>{ id: 7 }\<close>.
\<close>

theorem withSuspense_as_written_counterexample:
  "fallback \<lparr>fallback = Some (RNumber 0 :: (string, int) ReactNode), errorBoundary = None,
             loadingSize = None\<rparr> = Some (RNumber 0)
   \<and> enclosing_suspense
        (withSuspense react18 ''C''
           (Some \<lparr>fallback = Some (RNumber 0), errorBoundary = None, loadingSize = None\<rparr>)
           fmempty)
       = Some (DefaultLoadingFallbackEl (Some ''md''), ComponentEl ''C'' None fmempty)
   \<and> enclosing_suspense
        (withSuspense react18 ''C''
           (Some \<lparr>fallback = Some (RNumber 0), errorBoundary = None, loadingSize = None\<rparr>)
           fmempty)
       \<noteq> Some (RNumber 0, ComponentEl ''C'' None fmempty)
   \<and> enclosing_suspense
        (withSuspense react18 ''C''
           (Some \<lparr>fallback = Some RNull, errorBoundary = None, loadingSize = None\<rparr>)
           fmempty)
       \<noteq> Some (RNull, ComponentEl ''C'' None fmempty)
   \<and> enclosing_suspense
        (withSuspense react18 ''C'' None (fmupd ''key'' 5 (fmupd ''id'' 7 fmempty)))
       = Some (DefaultLoadingFallbackEl (Some ''md''),
               ComponentEl ''C'' (Some 5) (fmupd ''id'' 7 fmempty))
   \<and> fmlookup (fmupd ''id'' 7 fmempty) ''key'' \<noteq> fmlookup (fmupd ''key'' (5::int) (fmupd ''id'' 7 fmempty)) ''key''"
  by (simp add: withSuspense_shape createElement_def loadingFallback_def js_or_def options_Some
      options_None sample_props)

text \<open>
  Claim C7, as amended. The wrapper always passes its \<^verbatim>\<open>loadingFallback\<close> as the
  \<^verbatim>\<open>fallback\<close> attribute of the \<^verbatim>\<open>Suspense\<close> element that encloses the wrapped component.
  While the module of the component is still loading, the UI shown is what that
  placeholder renders to, whenever the placeholder itself renders; the default
  placeholder does for the sizes \<^verbatim>\<open>'sm'\<close>, \<^verbatim>\<open>'md'\<close> and \<^verbatim>\<open>'lg'\<close>. When rendering the
  placeholder throws, no placeholder is shown: the exception leaves the wrapper, or the
  error boundary of the wrapper shows its error fallback.
\<close>

theorem wrapper_passes_loadingFallback:
  "enclosing_suspense (withSuspense R C oarg props)
     = Some (loadingFallback (options_fallback oarg) (options_loadingSize oarg),
             createElement R C props)
   \<and> (reconcile beh (createElement R C props) = Suspended
        \<and> reconcile beh (loadingFallback (options_fallback oarg) (options_loadingSize oarg))
            = Shown n
        \<longrightarrow> reconcile beh (withSuspense R C oarg props) = Shown n)
   \<and> (reconcile beh (createElement R C props) = Suspended
        \<and> reconcile beh (loadingFallback (options_fallback oarg) (options_loadingSize oarg))
            = Threw e
        \<longrightarrow> reconcile beh (withSuspense R C oarg props)
              = (if options_errorBoundary oarg then Shown error_fallback else Threw e))
   \<and> (\<not> truthy (options_fallback oarg) \<and> options_loadingSize oarg \<in> {''sm'', ''md'', ''lg''}
        \<longrightarrow> (\<exists>spinner.
              reconcile beh (loadingFallback (options_fallback oarg) (options_loadingSize oarg))
                = Shown spinner))"
proof (intro conjI impI)
  show "enclosing_suspense (withSuspense R C oarg props)
     = Some (loadingFallback (options_fallback oarg) (options_loadingSize oarg),
             createElement R C props)"
    by (simp add: withSuspense_shape)
next
  assume "reconcile beh (createElement R C props) = Suspended
        \<and> reconcile beh (loadingFallback (options_fallback oarg) (options_loadingSize oarg))
            = Shown n"
  then show "reconcile beh (withSuspense R C oarg props) = Shown n"
    by (simp add: reconcile_wrapper)
next
  assume "reconcile beh (createElement R C props) = Suspended
        \<and> reconcile beh (loadingFallback (options_fallback oarg) (options_loadingSize oarg))
            = Threw e"
  then show "reconcile beh (withSuspense R C oarg props)
              = (if options_errorBoundary oarg then Shown error_fallback else Threw e)"
    by (simp add: reconcile_wrapper)
next
  assume "\<not> truthy (options_fallback oarg) \<and> options_loadingSize oarg \<in> {''sm'', ''md'', ''lg''}"
  then show "\<exists>spinner.
              reconcile beh (loadingFallback (options_fallback oarg) (options_loadingSize oarg))
                = Shown spinner"
    by (auto simp: loadingFallback_def js_or_def DefaultLoadingFallback_sm
        DefaultLoadingFallback_md DefaultLoadingFallback_lg)
qed

theorem wrapper_passes_loadingFallback_witness:
  "reconcile still_loading (createElement react18 ''C'' fmempty) = Suspended
   \<and> reconcile still_loading (RString ''Loading...'') = Shown (RString ''Loading...'')
   \<and> reconcile still_loading
        (withSuspense react18 ''C''
           (Some \<lparr>fallback = Some (RString ''Loading...''), errorBoundary = Some True,
                  loadingSize = None\<rparr>) fmempty)
       = Shown (RString ''Loading...'')
   \<and> reconcile spinner_throws (createElement react18 ''C'' fmempty) = Suspended
   \<and> reconcile spinner_throws (ComponentEl ''Spinner'' None fmempty)
       = Threw (Error ''spinner failed'')
   \<and> reconcile spinner_throws
        (withSuspense react18 ''C''
           (Some \<lparr>fallback = Some (ComponentEl ''Spinner'' None fmempty), errorBoundary = Some True,
                  loadingSize = None\<rparr>) fmempty)
       = Shown error_fallback
   \<and> \<not> truthy (options_fallback (None :: (string, int) options option))
   \<and> options_loadingSize (None :: (string, int) options option) \<in> {''sm'', ''md'', ''lg''}
   \<and> (\<exists>spinner. reconcile still_loading (DefaultLoadingFallbackEl (Some ''md'')) = Shown spinner)"
  using wrapper_passes_loadingFallback [where R = react18 and beh = still_loading and C = "''C''" and props = fmempty
      and n = "RString ''Loading...''"
      and oarg = "Some \<lparr>fallback = Some (RString ''Loading...''), errorBoundary = Some True,
                         loadingSize = None\<rparr>"]
    wrapper_passes_loadingFallback [where R = react18 and beh = spinner_throws and C = "''C''" and props = fmempty
      and e = "Error ''spinner failed''"
      and oarg = "Some \<lparr>fallback = Some (ComponentEl ''Spinner'' None fmempty),
                         errorBoundary = Some True, loadingSize = None\<rparr>"]
    wrapper_passes_loadingFallback [where R = react18 and beh = still_loading and C = "''C''" and props = fmempty
      and oarg = None]
  by (simp add: still_loading_def spinner_throws_def options_Some options_None
      loadingFallback_def js_or_def createElement_def)

text \<open>
  The claim as written, that the UI shown while loading is the placeholder, fails when
  the placeholder throws: a fallback of the caller whose component throws, with no
  error boundary, lets the exception out; with \<^verbatim>\<open>loadingSize: 'xl'\<close> the default
  placeholder raises a \<^verbatim>\<open>TypeError\<close>: while loading, the error fallback is shown when the
  error boundary is on, and the exception leaves the wrapper when it is off.
\<close>

theorem wrapper_placeholder_throws_counterexample:
  "reconcile spinner_throws (createElement react18 ''C'' fmempty) = Suspended
   \<and> reconcile spinner_throws
        (withSuspense react18 ''C''
           (Some \<lparr>fallback = Some (ComponentEl ''Spinner'' None fmempty), errorBoundary = None,
                  loadingSize = None\<rparr>) fmempty)
       = Threw (Error ''spinner failed'')
   \<and> reconcile still_loading (createElement react18 ''C'' fmempty) = Suspended
   \<and> reconcile still_loading
        (withSuspense react18 ''C''
           (Some \<lparr>fallback = None, errorBoundary = Some True, loadingSize = Some ''xl''\<rparr>) fmempty)
       = Shown error_fallback
   \<and> reconcile still_loading
        (withSuspense react18 ''C''
           (Some \<lparr>fallback = None, errorBoundary = None, loadingSize = Some ''xl''\<rparr>) fmempty)
       = Threw TypeError"
  by (simp add: reconcile_wrapper still_loading_def spinner_throws_def options_Some
      loadingFallback_def js_or_def createElement_def DefaultLoadingFallback_unknown_size)

text \<open>
  Claim C10, as amended. The wrapper forwards every prop field to the wrapped component
  unchanged, except for what element creation does: \<^verbatim>\<open>key\<close> and the other names the
  framework reserves are removed, and a prop that is then absent or \<^verbatim>\<open>undefined\<close> is
  filled from the defaults of the component; no other prop is added, removed or
  modified. When \<^verbatim>\<open>options.errorBoundary\<close> is omitted or false (that is, unless the
  options are given with \<^verbatim>\<open>errorBoundary: true\<close>), the element tree that is returned is
  the \<^verbatim>\<open>Suspense\<close> element and the component element under it, with no
  \<^verbatim>\<open>ErrorBoundary\<close> node.
\<close>

theorem wrapper_forwards_props:
  "forwarded_props (withSuspense R C oarg props) = Some (element_props R C props)
   \<and> (fmlookup props name = Some v \<and> name \<noteq> ''key'' \<and> name \<notin> set (reserved R)
        \<and> \<not> is_undefined R v
        \<longrightarrow> fmlookup (element_props R C props) name = Some v)
   \<and> (fmlookup (defaultProps R C) name = None
        \<longrightarrow> fmlookup (element_props R C props) name
              = (if name = ''key'' \<or> name \<in> set (reserved R) then None
                 else fmlookup props name))
   \<and> (fmlookup (defaultProps R C) name = Some d
        \<longrightarrow> fmlookup (element_props R C props) name
              = (case (if name = ''key'' \<or> name \<in> set (reserved R) then None
                       else fmlookup props name) of
                   None \<Rightarrow> Some d
                 | Some given \<Rightarrow> if is_undefined R given then Some d else Some given))
   \<and> (options_errorBoundary oarg
        \<longleftrightarrow> (\<exists>opts. oarg = Some opts \<and> errorBoundary opts = Some True))
   \<and> (\<not> options_errorBoundary oarg \<longrightarrow>
        nodes (withSuspense R C oarg props)
          = [SuspenseEl (loadingFallback (options_fallback oarg) (options_loadingSize oarg))
               (createElement R C props),
             createElement R C props]
        \<and> list_all (\<lambda>n. \<not> is_ErrorBoundary n) (nodes (withSuspense R C oarg props)))"
proof (intro conjI impI)
  show "forwarded_props (withSuspense R C oarg props) = Some (element_props R C props)"
    by (simp add: withSuspense_shape createElement_def)
next
  assume "fmlookup props name = Some v \<and> name \<noteq> ''key'' \<and> name \<notin> set (reserved R)
        \<and> \<not> is_undefined R v"
  then show "fmlookup (element_props R C props) name = Some v"
    by (simp add: element_props_lookup own_props_lookup)
next
  assume "fmlookup (defaultProps R C) name = None"
  then show "fmlookup (element_props R C props) name
              = (if name = ''key'' \<or> name \<in> set (reserved R) then None
                 else fmlookup props name)"
    by (simp add: element_props_lookup own_props_lookup split: option.splits)
next
  assume "fmlookup (defaultProps R C) name = Some d"
  then show "fmlookup (element_props R C props) name
              = (case (if name = ''key'' \<or> name \<in> set (reserved R) then None
                       else fmlookup props name) of
                   None \<Rightarrow> Some d
                 | Some given \<Rightarrow> if is_undefined R given then Some d else Some given)"
    by (simp add: element_props_lookup own_props_lookup split: option.splits)
next
  show "options_errorBoundary oarg
        \<longleftrightarrow> (\<exists>opts. oarg = Some opts \<and> errorBoundary opts = Some True)"
    by (cases oarg) (auto simp: options_None options_Some split: option.splits)
next
  assume "\<not> options_errorBoundary oarg"
  then show "nodes (withSuspense R C oarg props)
          = [SuspenseEl (loadingFallback (options_fallback oarg) (options_loadingSize oarg))
               (createElement R C props),
             createElement R C props]"
    by (simp add: withSuspense_shape createElement_def)
next
  assume "\<not> options_errorBoundary oarg"
  then show "list_all (\<lambda>n. \<not> is_ErrorBoundary n) (nodes (withSuspense R C oarg props))"
    by (simp add: withSuspense_shape createElement_def)
qed

theorem wrapper_forwards_props_witness:
  "forwarded_props (withSuspense react18_size_default ''C'' None (fmupd ''id'' 7 fmempty))
       = Some (fmupd ''id'' 7 (fmupd ''size'' 3 fmempty))
   \<and> fmlookup (fmupd ''id'' 7 fmempty) ''id'' = Some (7::int)
   \<and> ''id'' \<noteq> ''key'' \<and> ''id'' \<notin> set (reserved react18_size_default)
   \<and> \<not> is_undefined react18_size_default 7
   \<and> fmlookup (defaultProps react18_size_default ''C'') ''id'' = None
   \<and> fmlookup (element_props react18_size_default ''C'' (fmupd ''id'' 7 fmempty)) ''id'' = Some 7
   \<and> fmlookup (defaultProps react18_size_default ''C'') ''size'' = Some 3
   \<and> fmlookup (element_props react18_size_default ''C'' (fmupd ''id'' 7 fmempty)) ''size'' = Some 3
   \<and> \<not> options_errorBoundary (None :: (string, int) options option)
   \<and> nodes (withSuspense react18_size_default ''C'' None (fmupd ''id'' 7 fmempty))
       = [SuspenseEl (DefaultLoadingFallbackEl (Some ''md''))
            (ComponentEl ''C'' None (fmupd ''id'' 7 (fmupd ''size'' 3 fmempty))),
          ComponentEl ''C'' None (fmupd ''id'' 7 (fmupd ''size'' 3 fmempty))]
   \<and> list_all (\<lambda>n. \<not> is_ErrorBoundary n)
        (nodes (withSuspense react18_size_default ''C'' None (fmupd ''id'' 7 fmempty)))"
  using wrapper_forwards_props [where R = react18_size_default and C = "''C''" and oarg = None
      and props = "fmupd ''id'' 7 fmempty" and name = "''id''" and v = 7]
    wrapper_forwards_props [where R = react18_size_default and C = "''C''" and oarg = None
      and props = "fmupd ''id'' 7 fmempty" and name = "''size''" and d = 3]
  by (simp add: options_None loadingFallback_def js_or_def createElement_def sample_props
      element_key_def)
    (simp add: react18_size_default_def react18_def)

text \<open>
  The claim as written, that no prop is added, removed or modified, fails: from
  \<^verbatim>\<open>{ key: 5, id: 7 }\<close> the property \<^verbatim>\<open>key\<close> is removed, and with the default
  \<^verbatim>\<open>{ size: 3 }\<close> the property \<^verbatim>\<open>size\<close> is added to \<^verbatim>\<open>{ id: 7 }\<close>.
\<close>

theorem wrapper_strips_key_counterexample:
  "forwarded_props (withSuspense react18 ''C'' None (fmupd ''key'' 5 (fmupd ''id'' 7 fmempty)))
       = Some (fmupd ''id'' 7 fmempty)
   \<and> fmlookup (fmupd ''key'' (5::int) (fmupd ''id'' 7 fmempty)) ''key'' = Some 5
   \<and> fmlookup (fmupd ''id'' (7::int) fmempty) ''key'' = None
   \<and> forwarded_props (withSuspense react18_size_default ''C'' None (fmupd ''id'' 7 fmempty))
       = Some (fmupd ''id'' 7 (fmupd ''size'' 3 fmempty))
   \<and> fmlookup (fmupd ''id'' (7::int) fmempty) ''size'' = None
   \<and> fmlookup (fmupd ''id'' (7::int) (fmupd ''size'' 3 fmempty)) ''size'' = Some 3"
  by (simp add: withSuspense_shape createElement_def sample_props)

text \<open>
  Claim C2, as amended. For every component and every props value, the wrapper returned
  by \<^verbatim>\<open>withSuspense(C)\<close> shows the loading placeholder, the default spinner of size
  \<^verbatim>\<open>'md'\<close>, while the deferred import resolves. When the import or the render throws, a
  wrapper swaps to the fallback UI of the error boundary only if it was made with
  \<^verbatim>\<open>options.errorBoundary\<close> true; when that is omitted or false, as in
  \<^verbatim>\<open>withSuspense(C)\<close>, the wrapper has no error boundary and the exception leaves it.
\<close>

theorem wrapper_loading_and_error:
  "(reconcile beh (createElement R C props) = Suspended \<longrightarrow>
      reconcile beh (withSuspense R C None props)
        = Shown (Host ''div'' (Some ''flex items-center justify-center h-8 w-8 min-h-[200px]'')
                   None
                   [Host ''div''
                      (Some ''animate-spin rounded-full h-8 w-8 border-b-2 border-white'')
                      None []]))
   \<and> (reconcile beh (createElement R C props) = Threw e \<longrightarrow>
      reconcile beh (withSuspense R C oarg props)
        = (if options_errorBoundary oarg then Shown error_fallback else Threw e))"
  by (simp add: reconcile_wrapper options_None loadingFallback_def js_or_def
      DefaultLoadingFallback_md)

theorem wrapper_loading_and_error_witness:
  "reconcile still_loading (createElement react18 ''C'' fmempty) = Suspended
   \<and> reconcile still_loading (withSuspense react18 ''C'' None fmempty)
       = Shown (Host ''div'' (Some ''flex items-center justify-center h-8 w-8 min-h-[200px]'')
                   None
                   [Host ''div''
                      (Some ''animate-spin rounded-full h-8 w-8 border-b-2 border-white'')
                      None []])
   \<and> reconcile import_rejected (createElement react18 ''C'' fmempty)
       = Threw (Error ''Loading chunk failed'')
   \<and> reconcile import_rejected
        (withSuspense react18 ''C''
           (Some \<lparr>fallback = None, errorBoundary = Some True, loadingSize = None\<rparr>) fmempty)
       = Shown error_fallback
   \<and> reconcile import_rejected
        (withSuspense react18 ''C''
           (Some \<lparr>fallback = None, errorBoundary = Some False, loadingSize = None\<rparr>) fmempty)
       = Threw (Error ''Loading chunk failed'')"
  using wrapper_loading_and_error [where R = react18 and beh = still_loading and C = "''C''" and props = fmempty]
    wrapper_loading_and_error [where R = react18 and beh = import_rejected and C = "''C''" and props = fmempty
      and e = "Error ''Loading chunk failed''"
      and oarg = "Some \<lparr>fallback = None, errorBoundary = Some True, loadingSize = None\<rparr>"]
    wrapper_loading_and_error [where R = react18 and beh = import_rejected and C = "''C''" and props = fmempty
      and e = "Error ''Loading chunk failed''"
      and oarg = "Some \<lparr>fallback = None, errorBoundary = Some False, loadingSize = None\<rparr>"]
  by (simp add: still_loading_def import_rejected_def options_Some createElement_def)

text \<open>
  The claim as written fails for \<^verbatim>\<open>withSuspense(C)\<close>: with the default options the tree
  has no error boundary, and a rejected import is not replaced by a fallback UI.
\<close>

theorem wrapper_default_error_counterexample:
  "reconcile import_rejected (createElement react18 ''C'' fmempty)
       = Threw (Error ''Loading chunk failed'')
   \<and> reconcile import_rejected (withSuspense react18 ''C'' None fmempty)
       = Threw (Error ''Loading chunk failed'')
   \<and> list_all (\<lambda>n. \<not> is_ErrorBoundary n) (nodes (withSuspense react18 ''C'' None fmempty))"
  by (simp add: reconcile_wrapper withSuspense_shape options_None import_rejected_def
      createElement_def)

subsection \<open>\<^verbatim>\<open>ErrorBoundary\<close>\<close>

text \<open>
  Claim C4. The error boundary intercepts an exception thrown while its children render
  and renders a fallback instead: \<^verbatim>\<open>getDerivedStateFromError\<close> yields \<^verbatim>\<open>hasError = true\<close>
  from every state, whenever \<^verbatim>\<open>hasError\<close> is true \<^verbatim>\<open>render\<close> returns the fallback element
  whatever \<^verbatim>\<open>props.children\<close> is, and a boundary whose child throws shows that element
  where the exception would have left the tree.
\<close>

theorem ErrorBoundary_intercepts:
  "hasError getDerivedStateFromError
   \<and> hasError (setState getDerivedStateFromError s)
   \<and> (hasError s \<longrightarrow> render s props = error_fallback)
   \<and> (reconcile beh ch = Threw e \<longrightarrow> reconcile beh (ErrorBoundaryEl ch) = Shown error_fallback)"
  by (simp add: getDerivedStateFromError_def setState_def render_def
      ErrorBoundary_constructor_def)

theorem ErrorBoundary_intercepts_witness:
  "hasError \<lparr>hasError = True\<rparr>
   \<and> render \<lparr>hasError = True\<rparr> \<lparr>children = ComponentEl ''C'' None (fmempty :: (string, int) fmap)\<rparr>
       = error_fallback
   \<and> reconcile import_rejected (ComponentEl ''C'' None fmempty)
       = Threw (Error ''Loading chunk failed'')
   \<and> reconcile import_rejected (ErrorBoundaryEl (ComponentEl ''C'' None fmempty))
       = Shown error_fallback"
  using ErrorBoundary_intercepts [where s = "\<lparr>hasError = True\<rparr>"
      and props = "\<lparr>children = ComponentEl ''C'' None (fmempty :: (string, int) fmap)\<rparr>"
      and beh = import_rejected and ch = "ComponentEl ''C'' None fmempty"
      and e = "Error ''Loading chunk failed''"]
  by (simp add: import_rejected_def)

text \<open>
  Claim C5. From any state with \<^verbatim>\<open>hasError = true\<close>, what \<^verbatim>\<open>render\<close> returns has one
  handler, the \<^verbatim>\<open>onClick\<close> of the Retry button; running it sets \<^verbatim>\<open>hasError\<close> back to
  false, after which \<^verbatim>\<open>render\<close> returns \<^verbatim>\<open>props.children\<close> again.
\<close>

theorem ErrorBoundary_retry:
  assumes "hasError s"
  shows "button_handlers ''Retry'' (render s props) = [SetState \<lparr>hasError = False\<rparr>]
    \<and> onClicks (render s props) = button_handlers ''Retry'' (render s props)
    \<and> map (\<lambda>h. hasError (run_handler h s)) (button_handlers ''Retry'' (render s props))
        = [False]
    \<and> map (\<lambda>h. render (run_handler h s) props) (button_handlers ''Retry'' (render s props))
        = [children props]"
  using assms
  by (simp add: render_def button_handlers_error_fallback onClicks_error_fallback setState_def)

theorem ErrorBoundary_retry_witness:
  "hasError \<lparr>hasError = True\<rparr>
   \<and> button_handlers ''Retry''
        (render \<lparr>hasError = True\<rparr>
           \<lparr>children = ComponentEl ''C'' None (fmempty :: (string, int) fmap)\<rparr>)
       = [SetState \<lparr>hasError = False\<rparr>]
   \<and> render (run_handler (SetState \<lparr>hasError = False\<rparr>) \<lparr>hasError = True\<rparr>)
        \<lparr>children = ComponentEl ''C'' None (fmempty :: (string, int) fmap)\<rparr>
       = ComponentEl ''C'' None fmempty"
  using ErrorBoundary_retry [where s = "\<lparr>hasError = True\<rparr>"
      and props = "\<lparr>children = ComponentEl ''C'' None (fmempty :: (string, int) fmap)\<rparr>"]
  by (simp add: render_def setState_def)

subsection \<open>The lazy bindings and the exports\<close>

lemmas lazy_binding_defs =
  LazyProfileDashboard_def LazyPersonalDetails_def LazyTransaction_def LazyFilters_def
  LazyCoinCard_def LazyAssetTable_def LazySummaryHeader_def LazyTradeInterface_def
  LazySmallLoanCard_def LazyBigLoanCard_def LazyLoanRequestForm_def
  LazyLoanEligibilityMeter_def LazyWalletConnectionModal_def LazyFaucetModule_def
  LazyBuiltOnAptos_def

text \<open>
  The lazy bindings among the exports, and what a run of the application requests: after
  the components \<open>ns\<close> have been needed, a binding is pending if its name is among them,
  and as \<^verbatim>\<open>lazy\<close> returned it otherwise.
\<close>

lemma lazy_exports_eq:
  "lazy_exports = [(''LazyProfileDashboard'', LazyProfileDashboard), (''LazyPersonalDetails'', LazyPersonalDetails), (''LazyTransaction'', LazyTransaction), (''LazyFilters'', LazyFilters), (''LazyCoinCard'', LazyCoinCard), (''LazyAssetTable'', LazyAssetTable), (''LazySummaryHeader'', LazySummaryHeader), (''LazyTradeInterface'', LazyTradeInterface), (''LazySmallLoanCard'', LazySmallLoanCard), (''LazyBigLoanCard'', LazyBigLoanCard), (''LazyLoanRequestForm'', LazyLoanRequestForm), (''LazyLoanEligibilityMeter'', LazyLoanEligibilityMeter), (''LazyWalletConnectionModal'', LazyWalletConnectionModal), (''LazyFaucetModule'', LazyFaucetModule), (''LazyBuiltOnAptos'', LazyBuiltOnAptos)]"
  by (simp add: lazy_exports_def module_exports_def)

lemma lazy_exports_Uninitialized:
  assumes "map_of lazy_exports name = Some l"
  shows "payload_status l = Uninitialized"
proof -
  have "list_all (\<lambda>(name, l). payload_status l = Uninitialized) lazy_exports"
    by (simp add: lazy_exports_eq lazy_binding_defs lazy_def)
  moreover have "(name, l) \<in> set lazy_exports"
    using assms by (rule map_of_SomeD)
  ultimately show ?thesis
    by (auto simp: list_all_iff)
qed

lemma distinct_lazy_thunks: "distinct (map (\<lambda>(name, l). payload_thunk l) lazy_exports)"
  by (simp add: lazy_exports_eq lazy_binding_defs lazy_def)

lemma lazy_thunk_inj:
  assumes "map_of lazy_exports n = Some l" and "map_of lazy_exports m = Some l'"
    and "payload_thunk l = payload_thunk l'"
  shows "n = m"
proof -
  have "inj_on (\<lambda>(name, l). payload_thunk l) (set lazy_exports)"
    using distinct_lazy_thunks by (simp add: distinct_map)
  moreover have "(n, l) \<in> set lazy_exports" "(m, l') \<in> set lazy_exports"
    using assms(1,2) by (auto dest: map_of_SomeD)
  ultimately have "(n, l) = (m, l')"
    using assms(3)
    by (intro inj_onD [where f = "\<lambda>(name, l). payload_thunk l" and A = "set lazy_exports"])
      simp_all
  then show ?thesis by simp
qed

lemma run_snoc: "run (ns @ [n]) st = need n (run ns st)"
  by (simp add: run_def)

lemma bindings_run:
  "bindings (run ns module_loaded) n =
     (case map_of lazy_exports n of
        None \<Rightarrow> None
      | Some l \<Rightarrow> Some (if n \<in> set ns then l\<lparr>payload_status := Pending\<rparr> else l))"
proof (induction ns arbitrary: n rule: rev_induct)
  case Nil
  then show ?case
    by (simp add: run_def module_loaded_def split: option.splits)
next
  case (snoc x xs)
  show ?case
  proof (cases "map_of lazy_exports x")
    case None
    then show ?thesis
      using snoc [of x] snoc [of n]
      by (auto simp: run_snoc need_def split: option.splits)
  next
    case (Some l)
    then have "payload_status l = Uninitialized"
      by (rule lazy_exports_Uninitialized)
    then show ?thesis
      using Some snoc [of x] snoc [of n]
      by (cases "payload_thunk l")
        (auto simp: run_snoc need_def lazyInitializer_def split: option.splits)
  qed
qed

lemma requested_need:
  "requested (need n (run ns module_loaded)) =
     requested (run ns module_loaded) @
       (case map_of lazy_exports n of
          None \<Rightarrow> []
        | Some l \<Rightarrow> if n \<in> set ns then [] else (case payload_thunk l of Import p \<Rightarrow> [p]))"
proof (cases "map_of lazy_exports n")
  case None
  then show ?thesis
    using bindings_run [of ns n] by (simp add: need_def)
next
  case (Some l)
  then have "payload_status l = Uninitialized"
    by (rule lazy_exports_Uninitialized)
  then show ?thesis
    using Some bindings_run [of ns n]
    by (cases "payload_thunk l") (simp add: need_def lazyInitializer_def)
qed

lemma set_requested:
  "set (requested (run ns module_loaded)) =
     {p. \<exists>n l. n \<in> set ns \<and> map_of lazy_exports n = Some l \<and> payload_thunk l = Import p}"
proof (induction ns rule: rev_induct)
  case Nil
  then show ?case by (simp add: run_def module_loaded_def)
next
  case (snoc x xs)
  show ?case
  proof (cases "map_of lazy_exports x")
    case None
    then show ?thesis
      using snoc by (auto simp: run_snoc requested_need)
  next
    case (Some l)
    obtain p where p: "payload_thunk l = Import p"
      by (cases "payload_thunk l")
    show ?thesis
      using Some p snoc by (auto simp: run_snoc requested_need)
  qed
qed

lemma distinct_requested: "distinct (requested (run ns module_loaded))"
proof (induction ns rule: rev_induct)
  case Nil
  then show ?case by (simp add: run_def module_loaded_def)
next
  case (snoc x xs)
  show ?case
  proof (cases "map_of lazy_exports x")
    case None
    then show ?thesis
      using snoc by (simp add: run_snoc requested_need)
  next
    case (Some l)
    obtain p where p: "payload_thunk l = Import p"
      by (cases "payload_thunk l")
    show ?thesis
    proof (cases "x \<in> set xs")
      case True
      then show ?thesis
        using Some snoc by (simp add: run_snoc requested_need)
    next
      case False
      have "p \<notin> set (requested (run xs module_loaded))"
      proof
        assume "p \<in> set (requested (run xs module_loaded))"
        then obtain n l' where n: "n \<in> set xs" "map_of lazy_exports n = Some l'"
            "payload_thunk l' = Import p"
          by (auto simp: set_requested)
        then have "n = x"
          using Some p lazy_thunk_inj [of n l' x l] by simp
        then show False
          using n(1) False by simp
      qed
      then show ?thesis
        using Some p False snoc by (simp add: run_snoc requested_need)
    qed
  qed
qed

text \<open>
  Claim C3, as amended. Every \<^verbatim>\<open>Lazy*\<close> export of the module wraps a deferred module
  import: the exports that hold an import thunk are the fifteen \<^verbatim>\<open>Lazy*\<close> bindings and
  the object \<^verbatim>\<open>LazyComponents\<close> that collects the same fifteen, and each binding is what
  \<^verbatim>\<open>lazy\<close> returned for its own thunk. The thunk of a binding is only invoked when the
  component is first needed: evaluating the module requests nothing; needing a
  component requests its module if the component has not been needed before, and
  requests nothing otherwise; so a module has been requested exactly if its component
  has been needed, and no module is requested twice. The fifteen thunks import fifteen
  different modules, each by a request of its own, which is what lets a bundler split
  the code into separately fetched chunks.
\<close>

theorem lazy_exports_deferred:
  "map fst (filter (\<lambda>(name, e). import_thunks e \<noteq> []) module_exports) = [''LazyProfileDashboard'', ''LazyPersonalDetails'', ''LazyTransaction'', ''LazyFilters'', ''LazyCoinCard'', ''LazyAssetTable'', ''LazySummaryHeader'', ''LazyTradeInterface'', ''LazySmallLoanCard'', ''LazyBigLoanCard'', ''LazyLoanRequestForm'', ''LazyLoanEligibilityMeter'', ''LazyWalletConnectionModal'', ''LazyFaucetModule'', ''LazyBuiltOnAptos'', ''LazyComponents'']
   \<and> map snd LazyComponents = map snd lazy_exports
   \<and> list_all (\<lambda>(name, l). l = lazy (payload_thunk l)) lazy_exports
   \<and> distinct (map (\<lambda>(name, l). payload_thunk l) lazy_exports)
   \<and> requested module_loaded = []
   \<and> (map_of lazy_exports name = Some l \<and> payload_thunk l = Import p \<longrightarrow>
        requested (need name (run needed module_loaded))
          = requested (run needed module_loaded) @ (if name \<in> set needed then [] else [p]))
   \<and> (path \<in> set (requested (run needed module_loaded))
        \<longleftrightarrow> (\<exists>n b. n \<in> set needed \<and> map_of lazy_exports n = Some b
                    \<and> payload_thunk b = Import path))
   \<and> distinct (requested (run needed module_loaded))"
proof (intro conjI impI)
  show "map fst (filter (\<lambda>(name, e). import_thunks e \<noteq> []) module_exports) = [''LazyProfileDashboard'', ''LazyPersonalDetails'', ''LazyTransaction'', ''LazyFilters'', ''LazyCoinCard'', ''LazyAssetTable'', ''LazySummaryHeader'', ''LazyTradeInterface'', ''LazySmallLoanCard'', ''LazyBigLoanCard'', ''LazyLoanRequestForm'', ''LazyLoanEligibilityMeter'', ''LazyWalletConnectionModal'', ''LazyFaucetModule'', ''LazyBuiltOnAptos'', ''LazyComponents'']"
    by (simp add: module_exports_def LazyComponents_def)
next
  show "map snd LazyComponents = map snd lazy_exports"
    by (simp add: LazyComponents_def lazy_exports_eq)
next
  show "list_all (\<lambda>(name, l). l = lazy (payload_thunk l)) lazy_exports"
    by (simp add: lazy_exports_eq lazy_binding_defs lazy_def)
next
  show "distinct (map (\<lambda>(name, l). payload_thunk l) lazy_exports)"
    by (rule distinct_lazy_thunks)
next
  show "requested module_loaded = []"
    by (simp add: module_loaded_def)
next
  assume "map_of lazy_exports name = Some l \<and> payload_thunk l = Import p"
  then show "requested (need name (run needed module_loaded))
          = requested (run needed module_loaded) @ (if name \<in> set needed then [] else [p])"
    by (simp add: requested_need)
next
  show "path \<in> set (requested (run needed module_loaded))
        \<longleftrightarrow> (\<exists>n b. n \<in> set needed \<and> map_of lazy_exports n = Some b
                    \<and> payload_thunk b = Import path)"
    by (simp add: set_requested)
next
  show "distinct (requested (run needed module_loaded))"
    by (rule distinct_requested)
qed

theorem lazy_exports_deferred_witness:
  "map_of lazy_exports ''LazyFilters'' = Some LazyFilters
   \<and> payload_thunk LazyFilters = Import ''./components/marketplace/Filters''
   \<and> requested (run [''LazyCoinCard''] module_loaded) = [''./components/marketplace/CoinCard'']
   \<and> requested (need ''LazyFilters'' (run [''LazyCoinCard''] module_loaded))
       = [''./components/marketplace/CoinCard'', ''./components/marketplace/Filters'']
   \<and> requested (need ''LazyCoinCard'' (run [''LazyCoinCard''] module_loaded))
       = [''./components/marketplace/CoinCard'']"
  using lazy_exports_deferred [where name = "''LazyFilters''" and l = LazyFilters
      and p = "''./components/marketplace/Filters''" and needed = "[''LazyCoinCard'']"]
    lazy_exports_deferred [where name = "''LazyCoinCard''" and l = LazyCoinCard
      and p = "''./components/marketplace/CoinCard''" and needed = "[''LazyCoinCard'']"]
  by (simp add: lazy_exports_eq LazyFilters_def LazyCoinCard_def lazy_def run_def need_def
      module_loaded_def lazyInitializer_def)

text \<open>
  The claim as written, about every export, fails at the exports \<^verbatim>\<open>withSuspense\<close> and
  \<^verbatim>\<open>preloadComponent\<close>: they are functions and have no import thunk.
\<close>

theorem function_exports_counterexample:
  "map_of module_exports ''withSuspense'' = Some FunctionExport
   \<and> map_of module_exports ''preloadComponent'' = Some FunctionExport
   \<and> import_thunks FunctionExport = []"
  by (simp add: module_exports_def)

text \<open>
  Claim C6. The object \<^verbatim>\<open>LazyComponents\<close> has exactly the fifteen component names as its
  keys. Each key \<open>k\<close> maps to the lazy binding exported for that name, the export
  \<^verbatim>\<open>Lazy\<close>\<open>k\<close>, a deferred import, not yet invoked, of the module whose path ends in \<open>k\<close>;
  different keys map to different bindings.
\<close>

theorem LazyComponents_mapping:
  "map fst LazyComponents =
     [''ProfileDashboard'', ''PersonalDetails'', ''Transaction'', ''Filters'', ''CoinCard'',
      ''AssetTable'', ''SummaryHeader'', ''TradeInterface'', ''SmallLoanCard'',
      ''BigLoanCard'', ''LoanRequestForm'', ''LoanEligibilityMeter'',
      ''WalletConnectionModal'', ''FaucetModule'', ''BuiltOnAptos'']
   \<and> list_all (\<lambda>(k, l). map_of module_exports (''Lazy'' @ k) = Some (LazyExport l))
        LazyComponents
   \<and> list_all (\<lambda>(k, l). payload_status l = Uninitialized
        \<and> (case payload_thunk l of Import path \<Rightarrow> last (split CHR ''/'' path) = k))
        LazyComponents
   \<and> distinct (map snd LazyComponents)"
proof (intro conjI)
  show "map fst LazyComponents =
     [''ProfileDashboard'', ''PersonalDetails'', ''Transaction'', ''Filters'', ''CoinCard'',
      ''AssetTable'', ''SummaryHeader'', ''TradeInterface'', ''SmallLoanCard'',
      ''BigLoanCard'', ''LoanRequestForm'', ''LoanEligibilityMeter'',
      ''WalletConnectionModal'', ''FaucetModule'', ''BuiltOnAptos'']"
    by (simp add: LazyComponents_def)
next
  show "list_all (\<lambda>(k, l). map_of module_exports (''Lazy'' @ k) = Some (LazyExport l))
        LazyComponents"
    by (simp add: LazyComponents_def module_exports_def)
next
  show "list_all (\<lambda>(k, l). payload_status l = Uninitialized
        \<and> (case payload_thunk l of Import path \<Rightarrow> last (split CHR ''/'' path) = k))
        LazyComponents"
    by (simp add: LazyComponents_def lazy_binding_defs lazy_def)
next
  show "distinct (map snd LazyComponents)"
    by (simp add: LazyComponents_def lazy_binding_defs lazy_def)
qed

subsection \<open>\<^verbatim>\<open>preloadComponent\<close>\<close>

text \<open>
  Claim C9, as amended. For every import function that returns a promise, also one
  whose promise is rejected, \<^verbatim>\<open>preloadComponent\<close> returns without throwing; a rejection
  is consumed by the attached handler, which passes the reason to \<^verbatim>\<open>console.error\<close>.
\<close>

theorem preloadComponent_returns:
  assumes "importFn () = Return p"
  shows "preloadComponent importFn console =
           (Inr (), case p of PRejected e \<Rightarrow> console @ [e] | _ \<Rightarrow> console)"
  using assms
  by (simp add: preloadComponent_def promise_catch_def console_error_def split: promise.splits)

theorem preloadComponent_returns_witness:
  "rejecting_import () = Return (PRejected (Error ''Loading chunk failed''))
   \<and> preloadComponent rejecting_import [] = (Inr (), [Error ''Loading chunk failed''])"
  using preloadComponent_returns [of rejecting_import "PRejected (Error ''Loading chunk failed'')" "[]"]
  by (simp add: rejecting_import_def)

text \<open>
  The claim as written, for every import function, fails for one that throws before it
  returns a promise: the call \<^verbatim>\<open>importFn()\<close> is not guarded, and the exception reaches the
  caller of \<^verbatim>\<open>preloadComponent\<close>.
\<close>

theorem preloadComponent_throw_counterexample:
  "preloadComponent throwing_import [] = (Inl (Error ''offline''), [])"
  by (simp add: preloadComponent_def throwing_import_def)

end

